theory Spec2Isabelle
  imports Main "HOL-Library.Sublist"
begin

section \<open>Python values, dictionaries and exceptions\<close>

text \<open>
  The verifier of \<^verbatim>\<open>firebase_admin/app_check.py\<close> handles untyped Python values: the
  token argument may be anything, and header and payload are \<^verbatim>\<open>Dict[str, Any]\<close> holding
  JSON values.
\<close>

datatype pyval =
    PNone
  | PBool bool
  | PInt int
  | PStr string
  | PList "pyval list"
  | PDict "(string \<times> pyval) list"

type_synonym pydict = "string \<rightharpoonup> pyval"

text \<open>\<^verbatim>\<open>d.get(k)\<close>: the value, or \<^verbatim>\<open>None\<close> when the key is absent.\<close>

definition dict_get :: "pydict \<Rightarrow> string \<Rightarrow> pyval" where
  "dict_get d k = (case d k of None \<Rightarrow> PNone | Some v \<Rightarrow> v)"

text \<open>\<^verbatim>\<open>isinstance(v, str)\<close> and \<^verbatim>\<open>isinstance(v, list)\<close>.\<close>

fun isinstance_str :: "pyval \<Rightarrow> bool" where
  "isinstance_str (PStr s) = True"
| "isinstance_str v = False"

fun isinstance_list :: "pyval \<Rightarrow> bool" where
  "isinstance_list (PList xs) = True"
| "isinstance_list v = False"

text \<open>\<^verbatim>\<open>x in v\<close> for a list \<^verbatim>\<open>v\<close>: some element equals \<^verbatim>\<open>x\<close>.\<close>

fun py_in :: "pyval \<Rightarrow> pyval \<Rightarrow> bool" where
  "py_in x (PList xs) = (x \<in> set xs)"
| "py_in x v = False"

text \<open>\<^verbatim>\<open>type(v).__name__\<close>, as it appears in an \<^verbatim>\<open>AttributeError\<close>.\<close>

fun type_name :: "pyval \<Rightarrow> string" where
  "type_name PNone = ''NoneType''"
| "type_name (PBool b) = ''bool''"
| "type_name (PInt i) = ''int''"
| "type_name (PStr s) = ''str''"
| "type_name (PList xs) = ''list''"
| "type_name (PDict kvs) = ''dict''"

text \<open>
  The exception classes of the \<^verbatim>\<open>jwt\<close> package that the verifier names or that the package
  raises, with the method resolution order of each inside the package (nearest class first).
\<close>

datatype jwt_class =
    PyJWTError
  | InvalidTokenError
  | DecodeError
  | InvalidSignatureError
  | ExpiredSignatureError
  | InvalidAudienceError
  | InvalidIssuerError
  | InvalidIssuedAtError
  | ImmatureSignatureError
  | InvalidKeyError
  | InvalidAlgorithmError
  | MissingRequiredClaimError
  | PyJWKError
  | PyJWKSetError
  | PyJWKClientError
  | PyJWKClientConnectionError

fun mro :: "jwt_class \<Rightarrow> jwt_class list" where
  "mro PyJWTError = [PyJWTError]"
| "mro InvalidTokenError = [InvalidTokenError, PyJWTError]"
| "mro DecodeError = [DecodeError, InvalidTokenError, PyJWTError]"
| "mro InvalidSignatureError =
     [InvalidSignatureError, DecodeError, InvalidTokenError, PyJWTError]"
| "mro ExpiredSignatureError = [ExpiredSignatureError, InvalidTokenError, PyJWTError]"
| "mro InvalidAudienceError = [InvalidAudienceError, InvalidTokenError, PyJWTError]"
| "mro InvalidIssuerError = [InvalidIssuerError, InvalidTokenError, PyJWTError]"
| "mro InvalidIssuedAtError = [InvalidIssuedAtError, InvalidTokenError, PyJWTError]"
| "mro ImmatureSignatureError = [ImmatureSignatureError, InvalidTokenError, PyJWTError]"
| "mro InvalidKeyError = [InvalidKeyError, PyJWTError]"
| "mro InvalidAlgorithmError = [InvalidAlgorithmError, InvalidTokenError, PyJWTError]"
| "mro MissingRequiredClaimError =
     [MissingRequiredClaimError, InvalidTokenError, PyJWTError]"
| "mro PyJWKError = [PyJWKError, PyJWTError]"
| "mro PyJWKSetError = [PyJWKSetError, PyJWTError]"
| "mro PyJWKClientError = [PyJWKClientError, PyJWTError]"
| "mro PyJWKClientConnectionError =
     [PyJWKClientConnectionError, PyJWKClientError, PyJWTError]"

text \<open>An \<^verbatim>\<open>except C\<close> clause catches an exception of class \<open>c\<close> when \<open>C\<close> is in its order.\<close>

definition catches :: "jwt_class \<Rightarrow> jwt_class \<Rightarrow> bool" where
  "catches C c = (C \<in> set (mro c))"

text \<open>
  What a call can raise: the built-in exceptions the verifier raises or runs into, and the
  exceptions of the \<^verbatim>\<open>jwt\<close> package with their message. \<^verbatim>\<open>KeyError\<close> holds the missing key,
  \<^verbatim>\<open>AttributeError\<close> the type of the object and the attribute it lacks.
\<close>

datatype exc =
    ValueError string
  | KeyError string
  | AttributeError string string
  | JWTError jwt_class string

fun is_ValueError :: "exc \<Rightarrow> bool" where
  "is_ValueError (ValueError m) = True"
| "is_ValueError e = False"

section \<open>The collaborators\<close>

text \<open>
  The \<^verbatim>\<open>jwt\<close> package and the interpreter are not part of the repository; the verifier is
  modelled over every behaviour they may have. \<open>'s\<close> is the state of the key client (its
  cache of fetched keys and what the remote key set holds), which a lookup may change;
  \<open>'k\<close> is the key material. Decoding reads the clock, which is passed as an integer.
\<close>

record ('s, 'k) jwt_env =
  py_str :: "pyval \<Rightarrow> string"
  get_signing_key_from_jwt :: "'s \<Rightarrow> pyval \<Rightarrow> (exc + 'k) \<times> 's"
  get_unverified_header :: "pyval \<Rightarrow> exc + pydict"
  decode :: "int \<Rightarrow> pyval \<Rightarrow> 'k \<Rightarrow> string list \<Rightarrow> string \<Rightarrow> exc + pydict"

section \<open>The App Check service\<close>

definition APP_CHECK_ISSUER :: string where
  "APP_CHECK_ISSUER = ''https://firebaseappcheck.googleapis.com/''"

record app_check_service =
  project_id :: string
  scoped_project_id :: string

text \<open>
  \<^verbatim>\<open>_AppCheckService.__init__\<close>: \<^verbatim>\<open>app.project_id\<close> is a string or \<^verbatim>\<open>None\<close>, and
  \<^verbatim>\<open>not app.project_id\<close> holds for \<^verbatim>\<open>None\<close> and for the empty string.
\<close>

definition AppCheckService_init :: "string option \<Rightarrow> exc + app_check_service" where
  "AppCheckService_init app_project_id =
     (case app_project_id of
        None \<Rightarrow> Inl (ValueError (''A project ID must be specified to access the App Check ''
            @ ''service. Either set the projectId option, use service ''
            @ ''account credentials, or set the ''
            @ ''GOOGLE_CLOUD_PROJECT environment variable.''))
      | Some p \<Rightarrow>
          if p = [] then Inl (ValueError (''A project ID must be specified to access the App Check ''
            @ ''service. Either set the projectId option, use service ''
            @ ''account credentials, or set the ''
            @ ''GOOGLE_CLOUD_PROJECT environment variable.''))
          else Inr \<lparr> project_id = p, scoped_project_id = ''projects/'' @ p \<rparr>)"

text \<open>\<^verbatim>\<open>_Validators.check_string\<close>: two checks, then it returns.\<close>

definition check_string :: "(pyval \<Rightarrow> string) \<Rightarrow> string \<Rightarrow> pyval \<Rightarrow> exc + unit" where
  \<open>check_string str label v =
     (if v = PNone then
        Inl (ValueError (label @ '' "'' @ str v @ ''" must be a non-empty string.''))
      else if \<not> isinstance_str v then
        Inl (ValueError (label @ '' "'' @ str v @ ''" must be a string.''))
      else Inr ())\<close>

text \<open>\<^verbatim>\<open>_AppCheckService._has_valid_token_headers\<close>.\<close>

definition has_valid_token_headers :: "(pyval \<Rightarrow> string) \<Rightarrow> pydict \<Rightarrow> exc + unit" where
  "has_valid_token_headers str headers =
     (if dict_get headers ''typ'' \<noteq> PStr ''JWT'' then
        Inl (ValueError ''The provided App Check token has an incorrect type header'')
      else
        let algorithm = dict_get headers ''alg'' in
        if algorithm \<noteq> PStr ''RS256'' then
          Inl (ValueError (''The provided App Check token has an incorrect alg header. ''
                @ ''Expected RS256 but got '' @ str algorithm @ ''.''))
        else Inr ())"

text \<open>
  The \<^verbatim>\<open>except\<close> clauses around \<^verbatim>\<open>jwt.decode\<close> in \<^verbatim>\<open>_decode_and_verify\<close>, in the order of the
  source; the first clause that catches the exception wins, and an exception no clause
  catches goes on unchanged.
\<close>

fun decode_except :: "app_check_service \<Rightarrow> exc \<Rightarrow> exc" where
  \<open>decode_except svc (JWTError c m) =
     (if catches InvalidSignatureError c then
        ValueError ''The provided App Check token has an invalid signature.''
      else if catches InvalidAudienceError c then
        ValueError (''The provided App Check token has an incorrect "aud" (audience) claim. ''
          @ ''Expected payload to include '' @ scoped_project_id svc @ ''.'')
      else if catches InvalidIssuerError c then
        ValueError (''The provided App Check token has an incorrect "iss" (issuer) claim. ''
          @ ''Expected claim to include '' @ APP_CHECK_ISSUER)
      else if catches ExpiredSignatureError c then
        ValueError ''The provided App Check token has expired.''
      else if catches InvalidTokenError c then
        ValueError (''Decoding App Check token failed. Error: '' @ m)
      else JWTError c m)\<close>
| \<open>decode_except svc e = e\<close>

text \<open>
  The checks of \<^verbatim>\<open>_decode_and_verify\<close> on the decoded payload. \<^verbatim>\<open>payload['iss']\<close> raises
  \<^verbatim>\<open>KeyError\<close> when the claim is absent, and \<^verbatim>\<open>.startswith\<close> exists on strings only
  (\<^verbatim>\<open>cast\<close> does nothing at run time).
\<close>

definition check_claims ::
  "(pyval \<Rightarrow> string) \<Rightarrow> app_check_service \<Rightarrow> pydict \<Rightarrow> exc + pydict" where
  \<open>check_claims str svc payload =
     (let audience = dict_get payload ''aud'' in
      if \<not> isinstance_list audience \<or> \<not> py_in (PStr (scoped_project_id svc)) audience then
        Inl (ValueError ''Firebase App Check token has incorrect "aud" (audience) claim.'')
      else
        case payload ''iss'' of
          None \<Rightarrow> Inl (KeyError ''iss'')
        | Some (PStr iss) \<Rightarrow>
            if \<not> prefix APP_CHECK_ISSUER iss then
              Inl (ValueError ''Token does not contain the correct "iss" (issuer).'')
            else
              (case check_string str ''The provided App Check token "sub" (subject) claim''
                      (dict_get payload ''sub'') of
                 Inl e \<Rightarrow> Inl e
               | Inr u \<Rightarrow> Inr payload)
        | Some v \<Rightarrow> Inl (AttributeError (type_name v) ''startswith''))\<close>

text \<open>\<^verbatim>\<open>_AppCheckService._decode_and_verify\<close>.\<close>

definition decode_and_verify ::
  "('s, 'k) jwt_env \<Rightarrow> app_check_service \<Rightarrow> int \<Rightarrow> pyval \<Rightarrow> 'k \<Rightarrow> exc + pydict" where
  "decode_and_verify env svc now token signing_key =
     (case decode env now token signing_key [''RS256''] (scoped_project_id svc) of
        Inl e \<Rightarrow> Inl (decode_except svc e)
      | Inr payload \<Rightarrow> check_claims (py_str env) svc payload)"

text \<open>
  The \<^verbatim>\<open>except (jwt.InvalidTokenError, jwt.DecodeError)\<close> clause of \<^verbatim>\<open>verify_token\<close>;
  \<^verbatim>\<open>{exception}\<close> in the message is the exception's own message.
\<close>

fun verify_except :: "exc \<Rightarrow> exc" where
  "verify_except (JWTError c m) =
     (if catches InvalidTokenError c \<or> catches DecodeError c then
        ValueError (''Verifying App Check token failed. Error: '' @ m)
      else JWTError c m)"
| "verify_except e = e"

text \<open>The three calls inside the \<^verbatim>\<open>try\<close> block of \<^verbatim>\<open>verify_token\<close>, after the key lookup.\<close>

definition verify_body ::
  "('s, 'k) jwt_env \<Rightarrow> app_check_service \<Rightarrow> int \<Rightarrow> pyval \<Rightarrow> exc + 'k \<Rightarrow> exc + pydict" where
  "verify_body env svc now token fetched =
     (case fetched of
        Inl e \<Rightarrow> Inl e
      | Inr signing_key \<Rightarrow>
          (case get_unverified_header env token of
             Inl e \<Rightarrow> Inl e
           | Inr headers \<Rightarrow>
               (case has_valid_token_headers (py_str env) headers of
                  Inl e \<Rightarrow> Inl e
                | Inr u \<Rightarrow> decode_and_verify env svc now token signing_key)))"

text \<open>
  \<^verbatim>\<open>_AppCheckService.verify_token\<close>: the state of the key client goes in and comes out; the
  result is the exception raised or the claims returned.
\<close>

definition verify_token ::
  "('s, 'k) jwt_env \<Rightarrow> app_check_service \<Rightarrow> int \<Rightarrow> 's \<Rightarrow> pyval \<Rightarrow> (exc + pydict) \<times> 's" where
  "verify_token env svc now s token =
     (case check_string (py_str env) ''app check token'' token of
        Inl e \<Rightarrow> (Inl e, s)
      | Inr u \<Rightarrow>
          (case get_signing_key_from_jwt env s token of
             (fetched, s') \<Rightarrow>
               (case verify_body env svc now token fetched of
                  Inl e \<Rightarrow> (Inl (verify_except e), s')
                | Inr verified_claims \<Rightarrow>
                    (Inr (verified_claims(''app_id'' \<mapsto> dict_get verified_claims ''sub'')),
                     s'))))"

section \<open>A test double for the collaborators\<close>

text \<open>
  For the concrete scenarios the collaborators are replaced by a double that needs no
  network and no cryptography. A directory lists the strings that are compact tokens, with
  the header and payload each decodes to and the key that signed it, and the published key
  set by key identifier. The double follows the checks of the \<^verbatim>\<open>jwt\<close> package in their
  order: a string that is no token is a \<^verbatim>\<open>DecodeError\<close>; a key identifier that is not a
  string is an \<^verbatim>\<open>InvalidTokenError\<close>, one the key set lacks a \<^verbatim>\<open>PyJWKClientError\<close>;
  decoding checks the algorithm, the signing key, then \<^verbatim>\<open>iat\<close>, \<^verbatim>\<open>nbf\<close> and \<^verbatim>\<open>exp\<close>
  against the clock, then the audience (a scalar audience claim that equals the expected
  one is accepted, a list with a member that is not a string is refused). No issuer is
  passed to the decode step, so it does not look at \<^verbatim>\<open>iss\<close>. The state of its key client
  is the list of the tokens it was asked about.
\<close>

record compact_token =
  hdr :: "(string \<times> pyval) list"
  claims :: "(string \<times> pyval) list"
  signed_with :: nat

record directory =
  parses :: "(string \<times> compact_token) list"
  jwks :: "(string \<times> nat) list"

text \<open>
  \<^verbatim>\<open>str\<close> of the interpreter on the values of \<open>pyval\<close>: decimal integers, and lists and
  dictionaries through \<^verbatim>\<open>repr\<close> (strings in single quotes; a string holding a quote or a
  backslash is not escaped here).
\<close>

function str_nat :: "nat \<Rightarrow> string" where
  "str_nat n =
     (if n < 10 then [''0123456789'' ! n]
      else str_nat (n div 10) @ [''0123456789'' ! (n mod 10)])"
  by pat_completeness auto
termination
  by (relation "measure id") auto

definition str_int :: "int \<Rightarrow> string" where
  "str_int i = (if i < 0 then ''-'' @ str_nat (nat (- i)) else str_nat (nat i))"

fun join_comma :: "string list \<Rightarrow> string" where
  "join_comma [] = []"
| "join_comma [x] = x"
| "join_comma (x # y # ys) = x @ '', '' @ join_comma (y # ys)"

definition quoted :: "string \<Rightarrow> string" where
  "quoted s = [CHR 0x27] @ s @ [CHR 0x27]"

fun py_repr :: "pyval \<Rightarrow> string" where
  "py_repr PNone = ''None''"
| "py_repr (PBool b) = (if b then ''True'' else ''False'')"
| "py_repr (PInt i) = str_int i"
| "py_repr (PStr s) = quoted s"
| "py_repr (PList xs) = ''['' @ join_comma (map py_repr xs) @ '']''"
| "py_repr (PDict kvs) =
     ''{'' @ join_comma (map (\<lambda>(k, v). quoted k @ '': '' @ py_repr v) kvs) @ ''}''"

fun double_str :: "pyval \<Rightarrow> string" where
  "double_str (PStr s) = s"
| "double_str v = py_repr v"

fun lookup_token :: "directory \<Rightarrow> pyval \<Rightarrow> exc + compact_token" where
  "lookup_token d (PStr t) =
     (case map_of (parses d) t of
        None \<Rightarrow> Inl (JWTError DecodeError ''Not enough segments'')
      | Some ct \<Rightarrow> Inr ct)"
| "lookup_token d v = Inl (JWTError DecodeError ''Invalid token type'')"

fun lookup_kid :: "directory \<Rightarrow> pyval option \<Rightarrow> exc + nat" where
  \<open>lookup_kid d None =
     Inl (JWTError PyJWKClientError ''Unable to find a signing key that matches: "None"'')\<close>
| \<open>lookup_kid d (Some (PStr kid)) =
     (case map_of (jwks d) kid of
        None \<Rightarrow> Inl (JWTError PyJWKClientError
                  (''Unable to find a signing key that matches: "'' @ kid @ ''"''))
      | Some k \<Rightarrow> Inr k)\<close>
| \<open>lookup_kid d (Some v) =
     Inl (JWTError InvalidTokenError ''Key ID header parameter must be a string'')\<close>

definition double_get_signing_key ::
  "directory \<Rightarrow> pyval list \<Rightarrow> pyval \<Rightarrow> (exc + nat) \<times> pyval list" where
  "double_get_signing_key d asked token =
     (case lookup_token d token of
        Inl e \<Rightarrow> (Inl e, asked @ [token])
      | Inr ct \<Rightarrow> (lookup_kid d (map_of (hdr ct) ''kid''), asked @ [token]))"

fun kid_error :: "pyval option \<Rightarrow> exc option" where
  "kid_error None = None"
| "kid_error (Some (PStr kid)) = None"
| "kid_error (Some v) =
     Some (JWTError InvalidTokenError ''Key ID header parameter must be a string'')"

definition double_get_unverified_header :: "directory \<Rightarrow> pyval \<Rightarrow> exc + pydict" where
  "double_get_unverified_header d token =
     (case lookup_token d token of
        Inl e \<Rightarrow> Inl e
      | Inr ct \<Rightarrow>
          (case kid_error (map_of (hdr ct) ''kid'') of
             Some e \<Rightarrow> Inl e
           | None \<Rightarrow> Inr (map_of (hdr ct))))"

fun iat_error :: "int \<Rightarrow> pyval option \<Rightarrow> exc option" where
  "iat_error now None = None"
| "iat_error now (Some (PInt t)) =
     (if now < t then Some (JWTError ImmatureSignatureError ''The token is not yet valid (iat)'')
      else None)"
| "iat_error now (Some v) =
     Some (JWTError InvalidIssuedAtError ''Issued At claim (iat) must be an integer.'')"

fun nbf_error :: "int \<Rightarrow> pyval option \<Rightarrow> exc option" where
  "nbf_error now None = None"
| "nbf_error now (Some (PInt t)) =
     (if now < t then Some (JWTError ImmatureSignatureError ''The token is not yet valid (nbf)'')
      else None)"
| "nbf_error now (Some v) =
     Some (JWTError DecodeError ''Not Before claim (nbf) must be an integer.'')"

fun exp_error :: "int \<Rightarrow> pyval option \<Rightarrow> exc option" where
  "exp_error now None = None"
| "exp_error now (Some (PInt t)) =
     (if t \<le> now then Some (JWTError ExpiredSignatureError ''Signature has expired'')
      else None)"
| "exp_error now (Some v) =
     Some (JWTError DecodeError ''Expiration Time claim (exp) must be an integer.'')"

text \<open>\<^verbatim>\<open>not v\<close>: the values that count as false.\<close>

fun py_not :: "pyval \<Rightarrow> bool" where
  "py_not PNone = True"
| "py_not (PBool b) = (\<not> b)"
| "py_not (PInt i) = (i = 0)"
| "py_not (PStr s) = (s = [])"
| "py_not (PList xs) = (xs = [])"
| "py_not (PDict kvs) = (kvs = [])"

fun audience_claims :: "string \<Rightarrow> pyval \<Rightarrow> exc option" where
  "audience_claims audience (PStr a) =
     (if a = audience then None
      else Some (JWTError InvalidAudienceError ''Audience doesn't match''))"
| "audience_claims audience (PList xs) =
     (if \<not> list_all isinstance_str xs then
        Some (JWTError InvalidAudienceError ''Invalid claim format in token'')
      else if PStr audience \<in> set xs then None
      else Some (JWTError InvalidAudienceError ''Audience doesn't match''))"
| "audience_claims audience v =
     Some (JWTError InvalidAudienceError ''Invalid claim format in token'')"

definition audience_error :: "string \<Rightarrow> pyval option \<Rightarrow> exc option" where
  \<open>audience_error audience aud =
     (case aud of
        None \<Rightarrow> Some (JWTError MissingRequiredClaimError ''Token is missing the "aud" claim'')
      | Some v \<Rightarrow>
          if py_not v then
            Some (JWTError MissingRequiredClaimError ''Token is missing the "aud" claim'')
          else audience_claims audience v)\<close>

definition claims_error :: "int \<Rightarrow> string \<Rightarrow> pydict \<Rightarrow> exc option" where
  "claims_error now audience payload =
     (case iat_error now (payload ''iat'') of
        Some e \<Rightarrow> Some e
      | None \<Rightarrow>
          (case nbf_error now (payload ''nbf'') of
             Some e \<Rightarrow> Some e
           | None \<Rightarrow>
               (case exp_error now (payload ''exp'') of
                  Some e \<Rightarrow> Some e
                | None \<Rightarrow> audience_error audience (payload ''aud''))))"

definition double_decode ::
  "directory \<Rightarrow> int \<Rightarrow> pyval \<Rightarrow> nat \<Rightarrow> string list \<Rightarrow> string \<Rightarrow> exc + pydict" where
  "double_decode d now token signing_key algorithms audience =
     (case lookup_token d token of
        Inl e \<Rightarrow> Inl e
      | Inr ct \<Rightarrow>
          if dict_get (map_of (hdr ct)) ''alg'' \<notin> PStr ` set algorithms then
            Inl (JWTError InvalidAlgorithmError ''The specified alg value is not allowed'')
          else if signed_with ct \<noteq> signing_key then
            Inl (JWTError InvalidSignatureError ''Signature verification failed'')
          else
            (case claims_error now audience (map_of (claims ct)) of
               Some e \<Rightarrow> Inl e
             | None \<Rightarrow> Inr (map_of (claims ct))))"

definition double_env :: "directory \<Rightarrow> (pyval list, nat) jwt_env" where
  "double_env d =
     \<lparr> py_str = double_str,
       get_signing_key_from_jwt = double_get_signing_key d,
       get_unverified_header = double_get_unverified_header d,
       decode = double_decode d \<rparr>"

text \<open>The service of the scenarios, as the constructor builds it for project \<^verbatim>\<open>proj-x\<close>.\<close>

definition svc_proj_x :: app_check_service where
  "svc_proj_x = \<lparr> project_id = ''proj-x'', scoped_project_id = ''projects/proj-x'' \<rparr>"

text \<open>
  \<^verbatim>\<open>isinstance(e, jwt.InvalidTokenError)\<close>: the exceptions the \<^verbatim>\<open>except\<close> clause of
  \<^verbatim>\<open>verify_token\<close> catches (\<^verbatim>\<open>DecodeError\<close> is a subclass).
\<close>

fun is_InvalidTokenError :: "exc \<Rightarrow> bool" where
  "is_InvalidTokenError (JWTError c m) = catches InvalidTokenError c"
| "is_InvalidTokenError e = False"

section \<open>Scenarios\<close>

text \<open>
  The tokens of the scenarios, all for project \<^verbatim>\<open>proj-x\<close> and checked at time 1000. The
  key set publishes \<^verbatim>\<open>key-1\<close>, which is key 7.
\<close>

definition hdr_rs256 :: "(string \<times> pyval) list" where
  "hdr_rs256 = [(''typ'', PStr ''JWT''), (''alg'', PStr ''RS256''), (''kid'', PStr ''key-1'')]"

definition issuer_x :: string where
  "issuer_x = ''https://firebaseappcheck.googleapis.com/proj-x''"

definition claims_x :: "pyval \<Rightarrow> string \<Rightarrow> int \<Rightarrow> (string \<times> pyval) list" where
  "claims_x aud sub exp =
     [(''aud'', aud), (''iss'', PStr issuer_x), (''sub'', PStr sub), (''exp'', PInt exp)]"

definition claims_ok :: "(string \<times> pyval) list" where
  "claims_ok = claims_x (PList [PStr ''projects/proj-x'']) ''1:1234:android:abcd'' 2000"

definition directory_x :: directory where
  "directory_x =
     \<lparr> parses =
         [(''token.ok'', \<lparr> hdr = hdr_rs256, claims = claims_ok, signed_with = 7 \<rparr>),
          (''token.spec-audience'',
             \<lparr> hdr = hdr_rs256,
               claims = claims_x (PList [PStr ''proj-x'']) ''1:1234:android:abcd'' 2000,
               signed_with = 7 \<rparr>),
          (''token.empty-sub'',
             \<lparr> hdr = hdr_rs256,
               claims = claims_x (PList [PStr ''projects/proj-x'']) [] 2000,
               signed_with = 7 \<rparr>),
          (''token.unknown-kid'',
             \<lparr> hdr = [(''typ'', PStr ''JWT''), (''alg'', PStr ''RS256''), (''kid'', PStr ''key-9'')],
               claims = claims_ok, signed_with = 9 \<rparr>),
          (''token.scalar-aud'',
             \<lparr> hdr = hdr_rs256,
               claims = claims_x (PStr ''projects/proj-x'') ''1:1234:android:abcd'' 2000,
               signed_with = 7 \<rparr>),
          (''token.hs256'',
             \<lparr> hdr = [(''typ'', PStr ''JWT''), (''alg'', PStr ''HS256''), (''kid'', PStr ''key-1'')],
               claims = claims_ok, signed_with = 7 \<rparr>),
          (''token.expired'',
             \<lparr> hdr = hdr_rs256,
               claims = claims_x (PList [PStr ''projects/proj-x'']) ''1:1234:android:abcd'' 500,
               signed_with = 7 \<rparr>),
          (''token.forged'', \<lparr> hdr = hdr_rs256, claims = claims_ok, signed_with = 8 \<rparr>),
          (''token.other-project'',
             \<lparr> hdr = hdr_rs256,
               claims = claims_x (PList [PStr ''projects/proj-y'']) ''1:1234:android:abcd'' 2000,
               signed_with = 7 \<rparr>),
          (''token.app-id'',
             \<lparr> hdr = hdr_rs256, claims = (''app_id'', PStr ''forged'') # claims_ok,
               signed_with = 7 \<rparr>),
          (''token.other-issuer'',
             \<lparr> hdr = hdr_rs256,
               claims = [(''aud'', PList [PStr ''projects/proj-x'']),
                         (''iss'', PStr ''https://issuer.example.com/proj-x''),
                         (''sub'', PStr ''1:1234:android:abcd''), (''exp'', PInt 2000)],
               signed_with = 7 \<rparr>),
          (''token.issued-later'',
             \<lparr> hdr = hdr_rs256, claims = claims_ok @ [(''iat'', PInt 1500)],
               signed_with = 7 \<rparr>)],
       jwks = [(''key-1'', 7)] \<rparr>"

lemmas scenario_defs =
  hdr_rs256_def issuer_x_def claims_x_def claims_ok_def directory_x_def svc_proj_x_def
  double_env_def double_get_signing_key_def double_get_unverified_header_def double_decode_def
  claims_error_def audience_error_def

lemmas verifier_defs =
  verify_token_def verify_body_def decode_and_verify_def check_claims_def check_string_def
  has_valid_token_headers_def dict_get_def catches_def APP_CHECK_ISSUER_def

section \<open>What each step accepts and what it raises\<close>

lemma catches_DecodeError: "catches DecodeError c \<Longrightarrow> catches InvalidTokenError c"
  by (cases c) (simp_all add: catches_def)

lemma isinstance_str_iff: "isinstance_str v \<longleftrightarrow> (\<exists>s. v = PStr s)"
  by (cases v) simp_all

lemma isinstance_list_iff: "isinstance_list v \<longleftrightarrow> (\<exists>xs. v = PList xs)"
  by (cases v) simp_all

lemma check_string_Inr: "check_string str label v = Inr u \<longleftrightarrow> isinstance_str v"
  by (cases v) (simp_all add: check_string_def)

lemma check_string_Inl: "check_string str label v = Inl e \<Longrightarrow> is_ValueError e"
  by (auto simp: check_string_def split: if_splits)

lemma has_valid_token_headers_Inr:
  "has_valid_token_headers str h = Inr u \<longleftrightarrow>
     h ''typ'' = Some (PStr ''JWT'') \<and> h ''alg'' = Some (PStr ''RS256'')"
  by (auto simp: has_valid_token_headers_def dict_get_def Let_def split: option.splits)

lemma has_valid_token_headers_Inl:
  "has_valid_token_headers str h = Inl e \<Longrightarrow> is_ValueError e"
  by (auto simp: has_valid_token_headers_def Let_def split: if_splits)

lemma check_claims_Inr:
  "check_claims str svc p = Inr q \<longleftrightarrow>
     q = p \<and> (\<exists>xs. p ''aud'' = Some (PList xs) \<and> PStr (scoped_project_id svc) \<in> set xs)
       \<and> (\<exists>i. p ''iss'' = Some (PStr i) \<and> prefix APP_CHECK_ISSUER i)
       \<and> (\<exists>sub. p ''sub'' = Some (PStr sub))"
  by (auto simp: check_claims_def check_string_def dict_get_def Let_def
        isinstance_str_iff isinstance_list_iff
      split: option.splits pyval.splits if_splits)

lemma check_claims_Inl:
  "check_claims str svc p = Inl e \<Longrightarrow> p ''iss'' = Some (PStr i) \<Longrightarrow> is_ValueError e"
  by (auto simp: check_claims_def Let_def split: if_splits sum.splits dest: check_string_Inl)

lemma decode_except_kind:
  "is_ValueError (decode_except svc e) \<or> (decode_except svc e = e \<and> \<not> is_InvalidTokenError e)"
  by (cases e) simp_all

lemma verify_except_kind:
  "is_ValueError (verify_except e) \<or> (verify_except e = e \<and> \<not> is_InvalidTokenError e)"
  by (cases e) simp_all

lemma verify_except_ValueError: "is_ValueError e \<Longrightarrow> verify_except e = e"
  by (cases e) simp_all

lemma has_valid_token_headers_isl:
  "isl (has_valid_token_headers str h) \<longleftrightarrow>
     \<not> (h ''typ'' = Some (PStr ''JWT'') \<and> h ''alg'' = Some (PStr ''RS256''))"
  by (auto simp: has_valid_token_headers_def dict_get_def Let_def split: option.splits)

lemma check_string_isl: "isl (check_string str label v) \<longleftrightarrow> \<not> isinstance_str v"
  by (cases v) (simp_all add: check_string_def)

lemma decode_and_verify_Inr:
  "decode_and_verify env svc now token key = Inr p \<longleftrightarrow>
     decode env now token key [''RS256''] (scoped_project_id svc) = Inr p
     \<and> check_claims (py_str env) svc p = Inr p"
proof (cases "decode env now token key [''RS256''] (scoped_project_id svc)")
  case (Inl e)
  then show ?thesis by (simp add: decode_and_verify_def)
next
  case (Inr q)
  have "check_claims (py_str env) svc q = Inr p \<longleftrightarrow> q = p \<and> check_claims (py_str env) svc p = Inr p"
    using check_claims_Inr [of "py_str env" svc q p] by blast
  with Inr show ?thesis by (simp add: decode_and_verify_def)
qed

lemma verify_body_Inr:
  "verify_body env svc now token fetched = Inr p \<longleftrightarrow>
     (\<exists>key h. fetched = Inr key \<and> get_unverified_header env token = Inr h
        \<and> h ''typ'' = Some (PStr ''JWT'') \<and> h ''alg'' = Some (PStr ''RS256'')
        \<and> decode env now token key [''RS256''] (scoped_project_id svc) = Inr p
        \<and> check_claims (py_str env) svc p = Inr p)"
proof (cases fetched)
  case (Inl e)
  then show ?thesis by (simp add: verify_body_def)
next
  case key: (Inr key)
  show ?thesis
  proof (cases "get_unverified_header env token")
    case (Inl e)
    with key show ?thesis by (simp add: verify_body_def)
  next
    case h: (Inr h)
    show ?thesis
    proof (cases "has_valid_token_headers (py_str env) h")
      case (Inl e)
      then have "\<not> (h ''typ'' = Some (PStr ''JWT'') \<and> h ''alg'' = Some (PStr ''RS256''))"
        using has_valid_token_headers_isl [of "py_str env" h] by simp
      with key h Inl show ?thesis by (auto simp add: verify_body_def)
    next
      case (Inr u)
      then have "h ''typ'' = Some (PStr ''JWT'') \<and> h ''alg'' = Some (PStr ''RS256'')"
        using has_valid_token_headers_isl [of "py_str env" h] by simp
      with key h Inr show ?thesis by (simp add: verify_body_def decode_and_verify_Inr)
    qed
  qed
qed

lemma verify_token_Inr:
  "verify_token env svc now s token = (Inr c, s') \<longleftrightarrow>
     isinstance_str token \<and>
     (\<exists>key h p. get_signing_key_from_jwt env s token = (Inr key, s')
        \<and> get_unverified_header env token = Inr h
        \<and> h ''typ'' = Some (PStr ''JWT'') \<and> h ''alg'' = Some (PStr ''RS256'')
        \<and> decode env now token key [''RS256''] (scoped_project_id svc) = Inr p
        \<and> check_claims (py_str env) svc p = Inr p
        \<and> c = p(''app_id'' \<mapsto> dict_get p ''sub''))"
proof (cases "check_string (py_str env) ''app check token'' token")
  case (Inl e)
  then have "\<not> isinstance_str token"
    using check_string_isl [of "py_str env" "''app check token''" token] by simp
  with Inl show ?thesis by (simp add: verify_token_def)
next
  case (Inr u)
  then have str: "isinstance_str token"
    using check_string_isl [of "py_str env" "''app check token''" token] by simp
  obtain fetched s1 where f: "get_signing_key_from_jwt env s token = (fetched, s1)"
    by (cases "get_signing_key_from_jwt env s token")
  show ?thesis
  proof (cases "verify_body env svc now token fetched")
    case (Inl e)
    then have "\<And>p. verify_body env svc now token fetched \<noteq> Inr p" by simp
    then have no: "\<And>key h p. \<not> (fetched = Inr key \<and> get_unverified_header env token = Inr h
        \<and> h ''typ'' = Some (PStr ''JWT'') \<and> h ''alg'' = Some (PStr ''RS256'')
        \<and> decode env now token key [''RS256''] (scoped_project_id svc) = Inr p
        \<and> check_claims (py_str env) svc p = Inr p)"
      unfolding verify_body_Inr by blast
    have "verify_token env svc now s token = (Inl (verify_except e), s1)"
      using Inr f Inl by (simp add: verify_token_def)
    with f no show ?thesis by auto
  next
    case p: (Inr p)
    then obtain key h where kh: "fetched = Inr key" "get_unverified_header env token = Inr h"
        "h ''typ'' = Some (PStr ''JWT'')" "h ''alg'' = Some (PStr ''RS256'')"
        "decode env now token key [''RS256''] (scoped_project_id svc) = Inr p"
        "check_claims (py_str env) svc p = Inr p"
      unfolding verify_body_Inr by blast
    have "verify_token env svc now s token = (Inr (p(''app_id'' \<mapsto> dict_get p ''sub'')), s1)"
      using Inr f p by (simp add: verify_token_def)
    with f kh str show ?thesis by auto
  qed
qed

lemma verify_token_Inl_cases:
  assumes "fst (verify_token env svc now s token) = Inl e"
  shows "is_ValueError e
    \<or> (\<exists>e0. e = verify_except e0 \<and>
          (fst (get_signing_key_from_jwt env s token) = Inl e0
           \<or> (\<exists>key. fst (get_signing_key_from_jwt env s token) = Inr key \<and>
                (get_unverified_header env token = Inl e0
                 \<or> (\<exists>e1. decode env now token key [''RS256''] (scoped_project_id svc) = Inl e1
                        \<and> e0 = decode_except svc e1)
                 \<or> (\<exists>p. decode env now token key [''RS256''] (scoped_project_id svc) = Inr p
                        \<and> check_claims (py_str env) svc p = Inl e0)))))"
proof (cases "check_string (py_str env) ''app check token'' token")
  case (Inl e')
  with assms have "e = e'" by (simp add: verify_token_def)
  with Inl show ?thesis by (auto dest: check_string_Inl)
next
  case (Inr u)
  obtain fetched s1 where f: "get_signing_key_from_jwt env s token = (fetched, s1)"
    by (cases "get_signing_key_from_jwt env s token")
  from assms Inr f obtain e0 where b: "verify_body env svc now token fetched = Inl e0"
    and e: "e = verify_except e0"
    by (auto simp: verify_token_def split: sum.splits)
  show ?thesis
  proof (cases fetched)
    case (Inl ek)
    with b have "e0 = ek" by (simp add: verify_body_def)
    with Inl f e show ?thesis by auto
  next
    case key: (Inr key)
    with f have fk: "fst (get_signing_key_from_jwt env s token) = Inr key" by simp
    show ?thesis
    proof (cases "get_unverified_header env token")
      case (Inl eh)
      with b key have "e0 = eh" by (simp add: verify_body_def)
      with Inl e fk show ?thesis by auto
    next
      case h: (Inr h)
      show ?thesis
      proof (cases "has_valid_token_headers (py_str env) h")
        case (Inl ev)
        with b key h have "e0 = ev" by (simp add: verify_body_def)
        with Inl have "is_ValueError e0" by (auto dest: has_valid_token_headers_Inl)
        with e show ?thesis by (simp add: verify_except_ValueError)
      next
        case (Inr u')
        with b key h have d: "decode_and_verify env svc now token key = Inl e0"
          by (simp add: verify_body_def)
        show ?thesis
        proof (cases "decode env now token key [''RS256''] (scoped_project_id svc)")
          case (Inl e1)
          with d have "e0 = decode_except svc e1" by (simp add: decode_and_verify_def)
          with Inl e fk show ?thesis by blast
        next
          case (Inr p)
          with d have "check_claims (py_str env) svc p = Inl e0"
            by (simp add: decode_and_verify_def)
          with Inr e fk show ?thesis by blast
        qed
      qed
    qed
  qed
qed

lemma verify_except_surfaced:
  "if is_InvalidTokenError e0 then is_ValueError (verify_except e0) else verify_except e0 = e0"
  by (cases e0) (auto dest: catches_DecodeError)

lemma decode_except_surfaced:
  "if is_InvalidTokenError e0 then is_ValueError (verify_except (decode_except svc e0))
   else verify_except (decode_except svc e0) = e0"
proof (cases e0)
  case (JWTError c m)
  then show ?thesis by (cases c) (simp_all add: catches_def)
qed simp_all

lemma key_lookup_failure_surfaces:
  assumes "isinstance_str token"
    and "fst (get_signing_key_from_jwt env s token) = Inl e0"
  shows "fst (verify_token env svc now s token) = Inl (verify_except e0)"
proof -
  have cs: "check_string (py_str env) ''app check token'' token = Inr ()"
    using assms(1) by (simp add: check_string_Inr)
  obtain s1 where "get_signing_key_from_jwt env s token = (Inl e0, s1)"
    using assms(2) by (cases "get_signing_key_from_jwt env s token") simp
  with cs show ?thesis by (simp add: verify_token_def verify_body_def)
qed

lemma header_failure_surfaces:
  assumes "isinstance_str token"
    and "fst (get_signing_key_from_jwt env s token) = Inr key"
    and "get_unverified_header env token = Inl e0"
  shows "fst (verify_token env svc now s token) = Inl (verify_except e0)"
proof -
  have cs: "check_string (py_str env) ''app check token'' token = Inr ()"
    using assms(1) by (simp add: check_string_Inr)
  obtain s1 where "get_signing_key_from_jwt env s token = (Inr key, s1)"
    using assms(2) by (cases "get_signing_key_from_jwt env s token") simp
  with cs assms(3) show ?thesis by (simp add: verify_token_def verify_body_def)
qed

lemma decode_failure_surfaces:
  assumes "isinstance_str token"
    and "fst (get_signing_key_from_jwt env s token) = Inr key"
    and "get_unverified_header env token = Inr h"
    and "h ''typ'' = Some (PStr ''JWT'')" "h ''alg'' = Some (PStr ''RS256'')"
    and "decode env now token key [''RS256''] (scoped_project_id svc) = Inl e0"
  shows "fst (verify_token env svc now s token) = Inl (verify_except (decode_except svc e0))"
proof -
  have cs: "check_string (py_str env) ''app check token'' token = Inr ()"
    using assms(1) by (simp add: check_string_Inr)
  have hv: "has_valid_token_headers (py_str env) h = Inr ()"
    using assms(4,5) by (simp add: has_valid_token_headers_Inr)
  obtain s1 where "get_signing_key_from_jwt env s token = (Inr key, s1)"
    using assms(2) by (cases "get_signing_key_from_jwt env s token") simp
  with cs hv assms(3,6) show ?thesis
    by (simp add: verify_token_def verify_body_def decode_and_verify_def)
qed

lemma check_claims_audience:
  assumes "\<not> (\<exists>xs. p ''aud'' = Some (PList xs) \<and> PStr (scoped_project_id svc) \<in> set xs)"
  shows \<open>check_claims str svc p
     = Inl (ValueError ''Firebase App Check token has incorrect "aud" (audience) claim.'')\<close>
proof (cases "dict_get p ''aud''")
  case (PList xs)
  then have "p ''aud'' = Some (PList xs)"
    by (auto simp: dict_get_def split: option.splits)
  with assms have "PStr (scoped_project_id svc) \<notin> set xs" by simp
  with PList show ?thesis by (simp add: check_claims_def)
qed (simp_all add: check_claims_def)

lemma non_string_token_rejected:
  assumes "\<not> isinstance_str token"
  shows "\<exists>m. verify_token env svc now s token = (Inl (ValueError m), s)"
proof -
  from assms obtain e where e: "check_string (py_str env) ''app check token'' token = Inl e"
    using check_string_isl [of "py_str env" "''app check token''" token]
    by (cases "check_string (py_str env) ''app check token'' token") simp_all
  then have "is_ValueError e" by (rule check_string_Inl)
  then obtain m where "e = ValueError m" by (cases e) simp_all
  with e show ?thesis by (simp add: verify_token_def)
qed

lemma missing_sub_rejected:
  assumes "p ''sub'' = None"
  shows "isl (check_claims str svc p)"
proof (cases "check_claims str svc p")
  case (Inr q)
  with assms show ?thesis by (simp add: check_claims_Inr)
qed simp

section \<open>The claims\<close>

text \<open>
  Claim C1, as the specification states it: every failure of \<^verbatim>\<open>verify_token\<close> reaches the
  caller as \<^verbatim>\<open>ValueError\<close>, also when the key lookup fails. The code does otherwise: for a
  token whose key identifier the key set lacks, the \<^verbatim>\<open>PyJWKClientError\<close> of the lookup is
  not caught by \<^verbatim>\<open>except (jwt.InvalidTokenError, jwt.DecodeError)\<close> and reaches the caller
  as it is, which the docstring of the module-level \<^verbatim>\<open>verify_token\<close> documents.
\<close>

theorem key_lookup_failure_not_ValueError:
  \<open>fst (verify_token (double_env directory_x) svc_proj_x 1000 [] (PStr ''token.unknown-kid''))
     = Inl (JWTError PyJWKClientError ''Unable to find a signing key that matches: "key-9"'')
   \<and> \<not> is_ValueError
         (JWTError PyJWKClientError ''Unable to find a signing key that matches: "key-9"'')\<close>
  by (simp add: scenario_defs verifier_defs)

text \<open>
  Claim C1, amended. No failure is swallowed: a token that is not a string fails with
  \<^verbatim>\<open>ValueError\<close>; an exception raised by the key lookup, by the header decoding or by the
  decode step makes \<^verbatim>\<open>verify_token\<close> fail, with \<^verbatim>\<open>ValueError\<close> when the exception is an
  \<^verbatim>\<open>InvalidTokenError\<close> and with that very exception otherwise (this is the way of the
  \<^verbatim>\<open>PyJWKClientError\<close> of a failed key lookup); and claims are returned only when every
  step and every check passed. Conversely every failure the caller sees is a
  \<^verbatim>\<open>ValueError\<close>, or the exception, not an \<^verbatim>\<open>InvalidTokenError\<close>, that the key lookup
  raised or that the header decoding or the decode step raised under the key the lookup
  returned. Stated for tokens whose payload, decoded under the key the lookup returns,
  carries a string \<^verbatim>\<open>iss\<close> claim.
\<close>

theorem verify_token_failure_kinds:
  assumes iss: "\<forall>key p. fst (get_signing_key_from_jwt env s token) = Inr key
                \<longrightarrow> decode env now token key [''RS256''] (scoped_project_id svc) = Inr p
                \<longrightarrow> (\<exists>i. p ''iss'' = Some (PStr i))"
  shows "(\<not> isinstance_str token \<longrightarrow>
            (\<exists>m. verify_token env svc now s token = (Inl (ValueError m), s)))
    \<and> (\<forall>e0. isinstance_str token \<and> fst (get_signing_key_from_jwt env s token) = Inl e0 \<longrightarrow>
          (\<exists>e. fst (verify_token env svc now s token) = Inl e
             \<and> (if is_InvalidTokenError e0 then is_ValueError e else e = e0)))
    \<and> (\<forall>key e0. isinstance_str token
            \<and> fst (get_signing_key_from_jwt env s token) = Inr key
            \<and> get_unverified_header env token = Inl e0 \<longrightarrow>
          (\<exists>e. fst (verify_token env svc now s token) = Inl e
             \<and> (if is_InvalidTokenError e0 then is_ValueError e else e = e0)))
    \<and> (\<forall>key h e0. isinstance_str token
            \<and> fst (get_signing_key_from_jwt env s token) = Inr key
            \<and> get_unverified_header env token = Inr h
            \<and> h ''typ'' = Some (PStr ''JWT'') \<and> h ''alg'' = Some (PStr ''RS256'')
            \<and> decode env now token key [''RS256''] (scoped_project_id svc) = Inl e0 \<longrightarrow>
          (\<exists>e. fst (verify_token env svc now s token) = Inl e
             \<and> (if is_InvalidTokenError e0 then is_ValueError e else e = e0)))
    \<and> (\<forall>c. fst (verify_token env svc now s token) = Inr c \<longrightarrow>
          isinstance_str token
          \<and> (\<exists>key h p. fst (get_signing_key_from_jwt env s token) = Inr key
                \<and> get_unverified_header env token = Inr h
                \<and> h ''typ'' = Some (PStr ''JWT'') \<and> h ''alg'' = Some (PStr ''RS256'')
                \<and> decode env now token key [''RS256''] (scoped_project_id svc) = Inr p
                \<and> (\<exists>xs. p ''aud'' = Some (PList xs) \<and> PStr (scoped_project_id svc) \<in> set xs)
                \<and> (\<exists>i. p ''iss'' = Some (PStr i) \<and> prefix APP_CHECK_ISSUER i)
                \<and> (\<exists>sub. p ''sub'' = Some (PStr sub))))
    \<and> (\<forall>e. fst (verify_token env svc now s token) = Inl e \<longrightarrow>
          is_ValueError e
          \<or> (\<not> is_InvalidTokenError e
              \<and> (fst (get_signing_key_from_jwt env s token) = Inl e
                  \<or> (\<exists>key. fst (get_signing_key_from_jwt env s token) = Inr key
                        \<and> (get_unverified_header env token = Inl e
                            \<or> decode env now token key [''RS256''] (scoped_project_id svc)
                                = Inl e)))))"
proof (intro conjI allI impI)
  assume "\<not> isinstance_str token"
  then show "\<exists>m. verify_token env svc now s token = (Inl (ValueError m), s)"
    by (rule non_string_token_rejected)
next
  fix e0
  assume "isinstance_str token \<and> fst (get_signing_key_from_jwt env s token) = Inl e0"
  then have "fst (verify_token env svc now s token) = Inl (verify_except e0)"
    by (simp add: key_lookup_failure_surfaces)
  with verify_except_surfaced [of e0]
  show "\<exists>e. fst (verify_token env svc now s token) = Inl e
             \<and> (if is_InvalidTokenError e0 then is_ValueError e else e = e0)"
    by simp
next
  fix key e0
  assume "isinstance_str token
            \<and> fst (get_signing_key_from_jwt env s token) = Inr key
            \<and> get_unverified_header env token = Inl e0"
  then have "fst (verify_token env svc now s token) = Inl (verify_except e0)"
    by (simp add: header_failure_surfaces)
  with verify_except_surfaced [of e0]
  show "\<exists>e. fst (verify_token env svc now s token) = Inl e
             \<and> (if is_InvalidTokenError e0 then is_ValueError e else e = e0)"
    by simp
next
  fix key h e0
  assume "isinstance_str token
            \<and> fst (get_signing_key_from_jwt env s token) = Inr key
            \<and> get_unverified_header env token = Inr h
            \<and> h ''typ'' = Some (PStr ''JWT'') \<and> h ''alg'' = Some (PStr ''RS256'')
            \<and> decode env now token key [''RS256''] (scoped_project_id svc) = Inl e0"
  then have "fst (verify_token env svc now s token)
               = Inl (verify_except (decode_except svc e0))"
    by (simp add: decode_failure_surfaces)
  with decode_except_surfaced [of e0 svc]
  show "\<exists>e. fst (verify_token env svc now s token) = Inl e
             \<and> (if is_InvalidTokenError e0 then is_ValueError e else e = e0)"
    by simp
next
  fix c
  assume "fst (verify_token env svc now s token) = Inr c"
  then have "verify_token env svc now s token = (Inr c, snd (verify_token env svc now s token))"
    by (cases "verify_token env svc now s token") simp
  then obtain key h p where str: "isinstance_str token"
    and f: "get_signing_key_from_jwt env s token
              = (Inr key, snd (verify_token env svc now s token))"
    and rest: "get_unverified_header env token = Inr h"
      "h ''typ'' = Some (PStr ''JWT'')" "h ''alg'' = Some (PStr ''RS256'')"
      "decode env now token key [''RS256''] (scoped_project_id svc) = Inr p"
    and ck: "check_claims (py_str env) svc p = Inr p"
    unfolding verify_token_Inr by blast
  from f have fk: "fst (get_signing_key_from_jwt env s token) = Inr key" by simp
  from ck have cl: "(\<exists>xs. p ''aud'' = Some (PList xs) \<and> PStr (scoped_project_id svc) \<in> set xs)
       \<and> (\<exists>i. p ''iss'' = Some (PStr i) \<and> prefix APP_CHECK_ISSUER i)
       \<and> (\<exists>sub. p ''sub'' = Some (PStr sub))"
    unfolding check_claims_Inr by simp
  from str show "isinstance_str token" .
  from fk rest cl
  show "(\<exists>key h p. fst (get_signing_key_from_jwt env s token) = Inr key
                \<and> get_unverified_header env token = Inr h
                \<and> h ''typ'' = Some (PStr ''JWT'') \<and> h ''alg'' = Some (PStr ''RS256'')
                \<and> decode env now token key [''RS256''] (scoped_project_id svc) = Inr p
                \<and> (\<exists>xs. p ''aud'' = Some (PList xs) \<and> PStr (scoped_project_id svc) \<in> set xs)
                \<and> (\<exists>i. p ''iss'' = Some (PStr i) \<and> prefix APP_CHECK_ISSUER i)
                \<and> (\<exists>sub. p ''sub'' = Some (PStr sub)))"
    by blast
next
  fix e
  assume fails: "fst (verify_token env svc now s token) = Inl e"
  show "is_ValueError e
          \<or> (\<not> is_InvalidTokenError e
              \<and> (fst (get_signing_key_from_jwt env s token) = Inl e
                  \<or> (\<exists>key. fst (get_signing_key_from_jwt env s token) = Inr key
                        \<and> (get_unverified_header env token = Inl e
                            \<or> decode env now token key [''RS256''] (scoped_project_id svc)
                                = Inl e))))"
  proof (cases "is_ValueError e")
    case True
    then show ?thesis by simp
  next
    case False
    with verify_token_Inl_cases [OF fails] obtain e0 where e: "e = verify_except e0"
      and src: "fst (get_signing_key_from_jwt env s token) = Inl e0
           \<or> (\<exists>key. fst (get_signing_key_from_jwt env s token) = Inr key \<and>
                (get_unverified_header env token = Inl e0
                 \<or> (\<exists>e1. decode env now token key [''RS256''] (scoped_project_id svc) = Inl e1
                        \<and> e0 = decode_except svc e1)
                 \<or> (\<exists>p. decode env now token key [''RS256''] (scoped_project_id svc) = Inr p
                        \<and> check_claims (py_str env) svc p = Inl e0)))"
      by blast
    from e False verify_except_kind [of e0]
    have same: "e = e0" and nit: "\<not> is_InvalidTokenError e"
      by auto
    have nv: "\<not> is_ValueError e0" using False same by simp
    from src consider
        (fetch) "fst (get_signing_key_from_jwt env s token) = Inl e0"
      | (header) key where "fst (get_signing_key_from_jwt env s token) = Inr key"
          "get_unverified_header env token = Inl e0"
      | (decode) key e1 where "fst (get_signing_key_from_jwt env s token) = Inr key"
          "decode env now token key [''RS256''] (scoped_project_id svc) = Inl e1"
          "e0 = decode_except svc e1"
      | (claims) key p where "fst (get_signing_key_from_jwt env s token) = Inr key"
          "decode env now token key [''RS256''] (scoped_project_id svc) = Inr p"
          "check_claims (py_str env) svc p = Inl e0"
      by blast
    then show ?thesis
    proof cases
      case fetch
      with same nit show ?thesis by simp
    next
      case header
      with same nit show ?thesis by blast
    next
      case decode
      with nv decode_except_kind [of svc e1] have "e0 = e1" by auto
      with decode(2) same
      have "decode env now token key [''RS256''] (scoped_project_id svc) = Inl e"
        by simp
      with decode(1) nit show ?thesis by blast
    next
      case claims
      from iss claims(1,2) obtain i where "p ''iss'' = Some (PStr i)" by blast
      with claims(3) have "is_ValueError e0" by (rule check_claims_Inl)
      with nv show ?thesis by simp
    qed
  qed
qed

text \<open>
  Witness for C1. The token whose key identifier is unknown: the lookup raises
  \<^verbatim>\<open>PyJWKClientError\<close> and the caller gets that exception. A string that is no token: the
  lookup raises \<^verbatim>\<open>DecodeError\<close> and the caller gets a \<^verbatim>\<open>ValueError\<close>. The token of another
  issuer, whose payload the decode step returns: the hypothesis holds there with a payload,
  and the failure is a \<^verbatim>\<open>ValueError\<close>.
\<close>

theorem verify_token_failure_kinds_witness:
  \<open>fst (verify_token (double_env directory_x) svc_proj_x 1000 [] (PStr ''token.unknown-kid''))
     = Inl (JWTError PyJWKClientError ''Unable to find a signing key that matches: "key-9"'')
   \<and> (\<exists>e. fst (verify_token (double_env directory_x) svc_proj_x 1000 [] (PStr ''not a token''))
            = Inl e \<and> is_ValueError e)
   \<and> (\<exists>e. fst (verify_token (double_env directory_x) svc_proj_x 1000 []
                 (PStr ''token.other-issuer'')) = Inl e \<and> is_ValueError e)\<close>
proof (intro conjI)
  have hyp: "\<forall>key p. fst (get_signing_key_from_jwt (double_env directory_x) []
                 (PStr ''token.unknown-kid'')) = Inr key
      \<longrightarrow> decode (double_env directory_x) 1000 (PStr ''token.unknown-kid'') key [''RS256'']
            (scoped_project_id svc_proj_x) = Inr p
      \<longrightarrow> (\<exists>i. p ''iss'' = Some (PStr i))"
    by (simp add: scenario_defs)
  have raised: \<open>fst (get_signing_key_from_jwt (double_env directory_x) []
                 (PStr ''token.unknown-kid''))
      = Inl (JWTError PyJWKClientError ''Unable to find a signing key that matches: "key-9"'')\<close>
    by (simp add: scenario_defs)
  from verify_token_failure_kinds [OF hyp] raised
  show \<open>fst (verify_token (double_env directory_x) svc_proj_x 1000 [] (PStr ''token.unknown-kid''))
     = Inl (JWTError PyJWKClientError ''Unable to find a signing key that matches: "key-9"'')\<close>
    by (auto simp: catches_def)
next
  have hyp: "\<forall>key p. fst (get_signing_key_from_jwt (double_env directory_x) []
                 (PStr ''not a token'')) = Inr key
      \<longrightarrow> decode (double_env directory_x) 1000 (PStr ''not a token'') key [''RS256'']
            (scoped_project_id svc_proj_x) = Inr p
      \<longrightarrow> (\<exists>i. p ''iss'' = Some (PStr i))"
    by (simp add: scenario_defs)
  have raised: "fst (get_signing_key_from_jwt (double_env directory_x) [] (PStr ''not a token''))
      = Inl (JWTError DecodeError ''Not enough segments'')"
    by (simp add: scenario_defs)
  from verify_token_failure_kinds [OF hyp] raised
  show "\<exists>e. fst (verify_token (double_env directory_x) svc_proj_x 1000 [] (PStr ''not a token''))
            = Inl e \<and> is_ValueError e"
    by (auto simp: catches_def)
next
  have fetched: "fst (get_signing_key_from_jwt (double_env directory_x) []
                 (PStr ''token.other-issuer'')) = Inr 7"
    by (simp add: scenario_defs)
  have decoded: "decode (double_env directory_x) 1000 (PStr ''token.other-issuer'') 7 [''RS256'']
            (scoped_project_id svc_proj_x)
      = Inr (map_of [(''aud'', PList [PStr ''projects/proj-x'']),
                     (''iss'', PStr ''https://issuer.example.com/proj-x''),
                     (''sub'', PStr ''1:1234:android:abcd''), (''exp'', PInt 2000)])"
    by (simp add: scenario_defs dict_get_def)
  have hyp: "\<forall>key p. fst (get_signing_key_from_jwt (double_env directory_x) []
                 (PStr ''token.other-issuer'')) = Inr key
      \<longrightarrow> decode (double_env directory_x) 1000 (PStr ''token.other-issuer'') key [''RS256'']
            (scoped_project_id svc_proj_x) = Inr p
      \<longrightarrow> (\<exists>i. p ''iss'' = Some (PStr i))"
    using fetched decoded by auto
  have hdr: "get_unverified_header (double_env directory_x) (PStr ''token.other-issuer'')
      = Inr (map_of hdr_rs256)"
    by (simp add: scenario_defs)
  note facts = verify_token_failure_kinds [OF hyp]
  have no_claims: "\<And>c. fst (verify_token (double_env directory_x) svc_proj_x 1000 []
                 (PStr ''token.other-issuer'')) \<noteq> Inr c"
  proof
    fix c
    assume "fst (verify_token (double_env directory_x) svc_proj_x 1000 []
                 (PStr ''token.other-issuer'')) = Inr c"
    with facts obtain key p i where
        "fst (get_signing_key_from_jwt (double_env directory_x) []
                 (PStr ''token.other-issuer'')) = Inr key"
        "decode (double_env directory_x) 1000 (PStr ''token.other-issuer'') key [''RS256'']
            (scoped_project_id svc_proj_x) = Inr p"
        "p ''iss'' = Some (PStr i)" "prefix APP_CHECK_ISSUER i"
      by blast
    with fetched decoded show False by (auto simp: APP_CHECK_ISSUER_def)
  qed
  then obtain e where e: "fst (verify_token (double_env directory_x) svc_proj_x 1000 []
                 (PStr ''token.other-issuer'')) = Inl e"
    by (cases "fst (verify_token (double_env directory_x) svc_proj_x 1000 []
                 (PStr ''token.other-issuer''))") auto
  with facts have "is_ValueError e
          \<or> (\<not> is_InvalidTokenError e
              \<and> (fst (get_signing_key_from_jwt (double_env directory_x) []
                      (PStr ''token.other-issuer'')) = Inl e
                  \<or> (\<exists>key. fst (get_signing_key_from_jwt (double_env directory_x) []
                      (PStr ''token.other-issuer'')) = Inr key
                        \<and> (get_unverified_header (double_env directory_x)
                              (PStr ''token.other-issuer'') = Inl e
                            \<or> decode (double_env directory_x) 1000 (PStr ''token.other-issuer'')
                                key [''RS256''] (scoped_project_id svc_proj_x) = Inl e))))"
    by blast
  with fetched decoded hdr have "is_ValueError e" by auto
  with e show "\<exists>e. fst (verify_token (double_env directory_x) svc_proj_x 1000 []
                 (PStr ''token.other-issuer'')) = Inl e \<and> is_ValueError e"
    by blast
qed

text \<open>
  Claim C2 says that the empty string is rejected at once, before any key lookup. At the
  empty string \<^verbatim>\<open>check_string\<close> returns normally, the key client is asked about the token
  (its record of lookups holds the empty string afterwards), and the error the caller sees
  is the one the collaborator raised, wrapped by the \<^verbatim>\<open>except\<close> clause.
\<close>

theorem empty_token_reaches_key_lookup:
  \<open>check_string double_str ''app check token'' (PStr []) = Inr ()
   \<and> verify_token (double_env directory_x) svc_proj_x 1000 [] (PStr [])
       = (Inl (ValueError ''Verifying App Check token failed. Error: Not enough segments''),
          [PStr []])\<close>
  by (simp add: scenario_defs verifier_defs)

text \<open>
  Claim C3 says that a token with an empty \<^verbatim>\<open>sub\<close> claim is rejected. At a signed,
  unexpired token of the right audience and issuer whose \<^verbatim>\<open>sub\<close> is the empty string,
  \<^verbatim>\<open>verify_token\<close> returns the claims, with an empty \<^verbatim>\<open>app_id\<close>.
\<close>

theorem empty_sub_accepted:
  "verify_token (double_env directory_x) svc_proj_x 1000 [] (PStr ''token.empty-sub'')
     = (Inr ((map_of (claims_x (PList [PStr ''projects/proj-x'']) [] 2000))
               (''app_id'' \<mapsto> PStr [])),
        [PStr ''token.empty-sub''])"
  by (simp add: scenario_defs verifier_defs)

text \<open>
  Claim C4, as the specification states it: with the service built for project
  \<^verbatim>\<open>proj-x\<close>, the token whose audience claim is \<^verbatim>\<open>["proj-x"]\<close> verifies. The expected
  audience of that service is \<^verbatim>\<open>projects/proj-x\<close>, and the token is rejected.
\<close>

theorem unscoped_audience_scenario_rejected:
  \<open>AppCheckService_init (Some ''proj-x'') = Inr svc_proj_x
   \<and> verify_token (double_env directory_x) svc_proj_x 1000 [] (PStr ''token.spec-audience'')
       = (Inl (ValueError (''The provided App Check token has an incorrect "aud" (audience) claim. ''
                 @ ''Expected payload to include projects/proj-x.'')),
          [PStr ''token.spec-audience''])\<close>
  by (simp add: scenario_defs verifier_defs AppCheckService_init_def)

text \<open>
  Claim C4, amended: with the service built for project \<^verbatim>\<open>proj-x\<close>, the token with header
  \<^verbatim>\<open>typ = JWT\<close>, \<^verbatim>\<open>alg = RS256\<close> and payload \<^verbatim>\<open>aud = ["projects/proj-x"]\<close>, the issuer
  of \<^verbatim>\<open>proj-x\<close>, \<^verbatim>\<open>sub = "1:1234:android:abcd"\<close> and an expiry in the future, which the
  decode step accepts under the key the lookup returned, verifies; the claims returned are
  the payload with \<^verbatim>\<open>app_id = "1:1234:android:abcd"\<close>.
\<close>

theorem scoped_audience_scenario_accepted:
  assumes init: "AppCheckService_init (Some ''proj-x'') = Inr svc"
    and str: "isinstance_str token"
    and fetch: "get_signing_key_from_jwt env s token = (Inr key, s')"
    and header: "get_unverified_header env token = Inr h"
      "h ''typ'' = Some (PStr ''JWT'')" "h ''alg'' = Some (PStr ''RS256'')"
    and payload: "p = map_of [(''aud'', PList [PStr ''projects/proj-x'']),
                       (''iss'', PStr ''https://firebaseappcheck.googleapis.com/proj-x''),
                       (''sub'', PStr ''1:1234:android:abcd''),
                       (''exp'', PInt exp)]"
    and future: "now < exp"
    and signed: "decode env now token key [''RS256''] ''projects/proj-x'' = Inr p"
  shows "verify_token env svc now s token
           = (Inr (p(''app_id'' \<mapsto> PStr ''1:1234:android:abcd'')), s')"
proof -
  from init have svc: "scoped_project_id svc = ''projects/proj-x''"
    by (auto simp: AppCheckService_init_def)
  have "check_claims (py_str env) svc p = Inr p"
    unfolding check_claims_Inr by (simp add: svc payload APP_CHECK_ISSUER_def)
  moreover have "dict_get p ''sub'' = PStr ''1:1234:android:abcd''"
    by (simp add: dict_get_def payload)
  ultimately show ?thesis
    unfolding verify_token_Inr using str fetch header signed svc by simp
qed

text \<open>
  Witness for C4: the scenario run against the double, at time 1000 with expiry 2000.
\<close>

theorem scoped_audience_scenario_accepted_witness:
  "verify_token (double_env directory_x) svc_proj_x 1000 [] (PStr ''token.ok'')
     = (Inr ((map_of [(''aud'', PList [PStr ''projects/proj-x'']),
                       (''iss'', PStr ''https://firebaseappcheck.googleapis.com/proj-x''),
                       (''sub'', PStr ''1:1234:android:abcd''),
                       (''exp'', PInt 2000)])
               (''app_id'' \<mapsto> PStr ''1:1234:android:abcd'')),
        [PStr ''token.ok''])"
proof (rule scoped_audience_scenario_accepted [where key = 7 and h = "map_of hdr_rs256" and exp = 2000])
  show "AppCheckService_init (Some ''proj-x'') = Inr svc_proj_x"
    by (simp add: AppCheckService_init_def svc_proj_x_def)
  show "isinstance_str (PStr ''token.ok'')" by simp
  show "get_signing_key_from_jwt (double_env directory_x) [] (PStr ''token.ok'')
          = (Inr 7, [PStr ''token.ok''])"
    by (simp add: scenario_defs)
  show "get_unverified_header (double_env directory_x) (PStr ''token.ok'')
          = Inr (map_of hdr_rs256)"
    by (simp add: scenario_defs)
  show "map_of hdr_rs256 ''typ'' = Some (PStr ''JWT'')" by (simp add: hdr_rs256_def)
  show "map_of hdr_rs256 ''alg'' = Some (PStr ''RS256'')" by (simp add: hdr_rs256_def)
  show "(1000::int) < 2000" by simp
  show "decode (double_env directory_x) 1000 (PStr ''token.ok'') 7 [''RS256''] ''projects/proj-x''
          = Inr (map_of [(''aud'', PList [PStr ''projects/proj-x'']),
                       (''iss'', PStr ''https://firebaseappcheck.googleapis.com/proj-x''),
                       (''sub'', PStr ''1:1234:android:abcd''),
                       (''exp'', PInt 2000)])"
    by (simp add: scenario_defs dict_get_def)
qed simp



text \<open>
  Claim C6: a token that otherwise verifies (the key is found, the header is valid, the
  decode step returns the payload) is rejected unless its \<^verbatim>\<open>aud\<close> claim is a list that
  contains the expected audience; a scalar audience or a list without it fails.
\<close>

theorem audience_shape_enforced:
  assumes str: "isinstance_str token"
    and fetch: "get_signing_key_from_jwt env s token = (Inr key, s')"
    and header: "get_unverified_header env token = Inr h"
      "h ''typ'' = Some (PStr ''JWT'')" "h ''alg'' = Some (PStr ''RS256'')"
    and decoded: "decode env now token key [''RS256''] (scoped_project_id svc) = Inr p"
    and aud: "\<not> (\<exists>xs. p ''aud'' = Some (PList xs) \<and> PStr (scoped_project_id svc) \<in> set xs)"
  shows \<open>verify_token env svc now s token
     = (Inl (ValueError ''Firebase App Check token has incorrect "aud" (audience) claim.''), s')\<close>
proof -
  have hv: "has_valid_token_headers (py_str env) h = Inr ()"
    using header by (simp add: has_valid_token_headers_Inr)
  have cs: "check_string (py_str env) ''app check token'' token = Inr ()"
    using str by (simp add: check_string_Inr)
  have \<open>decode_and_verify env svc now token key
     = Inl (ValueError ''Firebase App Check token has incorrect "aud" (audience) claim.'')\<close>
    using decoded aud by (simp add: decode_and_verify_def check_claims_audience)
  then have \<open>verify_body env svc now token (Inr key)
     = Inl (ValueError ''Firebase App Check token has incorrect "aud" (audience) claim.'')\<close>
    using header(1) hv by (simp add: verify_body_def)
  then show ?thesis using cs fetch by (simp add: verify_token_def)
qed

text \<open>
  Witness for C6: the audience claim is the scalar string \<^verbatim>\<open>projects/proj-x\<close>, which the
  decode step of the double accepts.
\<close>

theorem audience_shape_enforced_witness:
  \<open>verify_token (double_env directory_x) svc_proj_x 1000 [] (PStr ''token.scalar-aud'')
     = (Inl (ValueError ''Firebase App Check token has incorrect "aud" (audience) claim.''),
        [PStr ''token.scalar-aud''])\<close>
proof (rule audience_shape_enforced [where key = 7 and h = "map_of hdr_rs256"
      and p = "map_of (claims_x (PStr ''projects/proj-x'') ''1:1234:android:abcd'' 2000)"])
  show "isinstance_str (PStr ''token.scalar-aud'')" by simp
  show "get_signing_key_from_jwt (double_env directory_x) [] (PStr ''token.scalar-aud'')
          = (Inr 7, [PStr ''token.scalar-aud''])"
    by (simp add: scenario_defs)
  show "get_unverified_header (double_env directory_x) (PStr ''token.scalar-aud'')
          = Inr (map_of hdr_rs256)"
    by (simp add: scenario_defs)
  show "map_of hdr_rs256 ''typ'' = Some (PStr ''JWT'')" by (simp add: hdr_rs256_def)
  show "map_of hdr_rs256 ''alg'' = Some (PStr ''RS256'')" by (simp add: hdr_rs256_def)
  show "decode (double_env directory_x) 1000 (PStr ''token.scalar-aud'') 7 [''RS256'']
          (scoped_project_id svc_proj_x)
        = Inr (map_of (claims_x (PStr ''projects/proj-x'') ''1:1234:android:abcd'' 2000))"
    by (simp add: scenario_defs dict_get_def)
  show "\<not> (\<exists>xs. map_of (claims_x (PStr ''projects/proj-x'') ''1:1234:android:abcd'' 2000) ''aud''
              = Some (PList xs) \<and> PStr (scoped_project_id svc_proj_x) \<in> set xs)"
    by (simp add: claims_x_def)
qed

text \<open>
  Claim C7: a token whose unverified header has a \<^verbatim>\<open>typ\<close> other than \<^verbatim>\<open>JWT\<close> or an
  \<^verbatim>\<open>alg\<close> other than \<^verbatim>\<open>RS256\<close> (an absent one included) never verifies: the call fails,
  with \<^verbatim>\<open>ValueError\<close> unless the key lookup, which comes first, raised something else.
\<close>

theorem bad_header_rejected:
  assumes header: "get_unverified_header env token = Inr h"
    and bad: "h ''typ'' \<noteq> Some (PStr ''JWT'') \<or> h ''alg'' \<noteq> Some (PStr ''RS256'')"
  shows "\<exists>e. fst (verify_token env svc now s token) = Inl e
           \<and> (is_ValueError e \<or> fst (get_signing_key_from_jwt env s token) = Inl e)"
proof (cases "check_string (py_str env) ''app check token'' token")
  case (Inl e)
  then have "fst (verify_token env svc now s token) = Inl e" by (simp add: verify_token_def)
  with Inl show ?thesis by (auto dest: check_string_Inl)
next
  case (Inr u)
  obtain fetched s1 where f: "get_signing_key_from_jwt env s token = (fetched, s1)"
    by (cases "get_signing_key_from_jwt env s token")
  show ?thesis
  proof (cases fetched)
    case (Inl e0)
    with Inr f have "fst (verify_token env svc now s token) = Inl (verify_except e0)"
      by (simp add: verify_token_def verify_body_def)
    with verify_except_kind [of e0] Inl f show ?thesis by auto
  next
    case key: (Inr key)
    from bad have "isl (has_valid_token_headers (py_str env) h)"
      by (simp add: has_valid_token_headers_isl)
    then obtain ev where ev: "has_valid_token_headers (py_str env) h = Inl ev"
      by (cases "has_valid_token_headers (py_str env) h") simp_all
    then have v: "is_ValueError ev" by (rule has_valid_token_headers_Inl)
    from Inr f key header ev
    have "fst (verify_token env svc now s token) = Inl (verify_except ev)"
      by (simp add: verify_token_def verify_body_def)
    with v show ?thesis by (simp add: verify_except_ValueError)
  qed
qed

text \<open>
  Witness for C7: a correctly signed token whose header says \<^verbatim>\<open>HS256\<close>.
\<close>

theorem bad_header_rejected_witness:
  "\<exists>e. fst (verify_token (double_env directory_x) svc_proj_x 1000 [] (PStr ''token.hs256'')) = Inl e
     \<and> (is_ValueError e
         \<or> fst (get_signing_key_from_jwt (double_env directory_x) [] (PStr ''token.hs256'')) = Inl e)"
proof (rule bad_header_rejected [where h = "map_of [(''typ'', PStr ''JWT''), (''alg'', PStr ''HS256''),
      (''kid'', PStr ''key-1'')]"])
  show "get_unverified_header (double_env directory_x) (PStr ''token.hs256'')
     = Inr (map_of [(''typ'', PStr ''JWT''), (''alg'', PStr ''HS256''), (''kid'', PStr ''key-1'')])"
    by (simp add: scenario_defs)
  show "map_of [(''typ'', PStr ''JWT''), (''alg'', PStr ''HS256''), (''kid'', PStr ''key-1'')] ''typ''
          \<noteq> Some (PStr ''JWT'')
      \<or> map_of [(''typ'', PStr ''JWT''), (''alg'', PStr ''HS256''), (''kid'', PStr ''key-1'')] ''alg''
          \<noteq> Some (PStr ''RS256'')"
    by simp
qed

text \<open>
  Claim C8, as the specification states it: every well-formed token signed by the expected
  key, with the expected audience in \<^verbatim>\<open>aud\<close>, an \<^verbatim>\<open>iss\<close> that starts with the issuer URL,
  not expired and with a non-empty \<^verbatim>\<open>sub\<close>, verifies. The token below meets each of these
  conditions (it is signed with the key the lookup returns, and at time 1000 its expiry
  2000 is ahead) and also carries \<^verbatim>\<open>iat = 1500\<close>. The decode step refuses a token issued in
  the future, and the \<^verbatim>\<open>except jwt.InvalidTokenError\<close> clause of \<^verbatim>\<open>_decode_and_verify\<close>
  turns that into a \<^verbatim>\<open>ValueError\<close>.
\<close>

theorem issued_later_token_rejected:
  "map_of (parses directory_x) ''token.issued-later''
     = Some \<lparr> hdr = [(''typ'', PStr ''JWT''), (''alg'', PStr ''RS256''), (''kid'', PStr ''key-1'')],
              claims = [(''aud'', PList [PStr ''projects/proj-x'']),
                        (''iss'', PStr ''https://firebaseappcheck.googleapis.com/proj-x''),
                        (''sub'', PStr ''1:1234:android:abcd''), (''exp'', PInt 2000),
                        (''iat'', PInt 1500)],
              signed_with = 7 \<rparr>
   \<and> get_signing_key_from_jwt (double_env directory_x) [] (PStr ''token.issued-later'')
       = (Inr 7, [PStr ''token.issued-later''])
   \<and> verify_token (double_env directory_x) svc_proj_x 1000 [] (PStr ''token.issued-later'')
       = (Inl (ValueError
            ''Decoding App Check token failed. Error: The token is not yet valid (iat)''),
          [PStr ''token.issued-later''])"
  by (simp add: scenario_defs verifier_defs)

text \<open>
  Claim C8, amended: a string token whose key is found, whose header has \<^verbatim>\<open>typ = JWT\<close> and
  \<^verbatim>\<open>alg = RS256\<close>, which the decode step accepts under that key for the expected audience
  (the signature, the expiry and the other checks of the \<^verbatim>\<open>jwt\<close> package on standard
  claims, such as \<^verbatim>\<open>iat\<close> and \<^verbatim>\<open>nbf\<close>), whose \<^verbatim>\<open>aud\<close> list contains the expected audience,
  whose \<^verbatim>\<open>iss\<close> starts with the issuer URL and whose \<^verbatim>\<open>sub\<close> is a non-empty string,
  verifies; the claims returned hold \<^verbatim>\<open>sub\<close>, \<^verbatim>\<open>aud\<close>, \<^verbatim>\<open>iss\<close> and \<^verbatim>\<open>app_id\<close>, and
  \<^verbatim>\<open>app_id\<close> equals \<^verbatim>\<open>sub\<close>.
\<close>

theorem valid_token_accepted:
  assumes str: "isinstance_str token"
    and fetch: "get_signing_key_from_jwt env s token = (Inr key, s')"
    and header: "get_unverified_header env token = Inr h"
      "h ''typ'' = Some (PStr ''JWT'')" "h ''alg'' = Some (PStr ''RS256'')"
    and decoded: "decode env now token key [''RS256''] (scoped_project_id svc) = Inr p"
    and aud: "p ''aud'' = Some (PList xs)" "PStr (scoped_project_id svc) \<in> set xs"
    and iss: "p ''iss'' = Some (PStr i)" "prefix APP_CHECK_ISSUER i"
    and sub: "p ''sub'' = Some (PStr sub)" "sub \<noteq> []"
  shows "\<exists>c. verify_token env svc now s token = (Inr c, s')
           \<and> c ''app_id'' = Some (PStr sub) \<and> c ''sub'' = Some (PStr sub)
           \<and> c ''aud'' = Some (PList xs) \<and> c ''iss'' = Some (PStr i)
           \<and> {''sub'', ''aud'', ''iss'', ''app_id''} \<subseteq> dom c"
proof -
  have ck: "check_claims (py_str env) svc p = Inr p"
    unfolding check_claims_Inr using aud iss sub(1) by simp
  have g: "dict_get p ''sub'' = PStr sub" using sub(1) by (simp add: dict_get_def)
  have v: "verify_token env svc now s token = (Inr (p(''app_id'' \<mapsto> dict_get p ''sub'')), s')"
    unfolding verify_token_Inr using str fetch header decoded ck by blast
  show ?thesis
    unfolding v using aud(1) iss(1) sub(1) g by auto
qed

text \<open>
  Witness for C8: the valid token of the scenarios.
\<close>

theorem valid_token_accepted_witness:
  "\<exists>c. verify_token (double_env directory_x) svc_proj_x 1000 [] (PStr ''token.ok'')
          = (Inr c, [PStr ''token.ok''])
      \<and> c ''app_id'' = Some (PStr ''1:1234:android:abcd'')
      \<and> c ''sub'' = Some (PStr ''1:1234:android:abcd'')
      \<and> c ''aud'' = Some (PList [PStr ''projects/proj-x''])
      \<and> c ''iss'' = Some (PStr issuer_x)
      \<and> {''sub'', ''aud'', ''iss'', ''app_id''} \<subseteq> dom c"
proof (rule valid_token_accepted [where key = 7 and h = "map_of hdr_rs256" and p = "map_of claims_ok"])
  show "isinstance_str (PStr ''token.ok'')" by simp
  show "get_signing_key_from_jwt (double_env directory_x) [] (PStr ''token.ok'')
          = (Inr 7, [PStr ''token.ok''])"
    by (simp add: scenario_defs)
  show "get_unverified_header (double_env directory_x) (PStr ''token.ok'')
          = Inr (map_of hdr_rs256)"
    by (simp add: scenario_defs)
  show "map_of hdr_rs256 ''typ'' = Some (PStr ''JWT'')" by (simp add: hdr_rs256_def)
  show "map_of hdr_rs256 ''alg'' = Some (PStr ''RS256'')" by (simp add: hdr_rs256_def)
  show "decode (double_env directory_x) 1000 (PStr ''token.ok'') 7 [''RS256'']
          (scoped_project_id svc_proj_x) = Inr (map_of claims_ok)"
    by (simp add: scenario_defs dict_get_def)
  show "map_of claims_ok ''aud'' = Some (PList [PStr ''projects/proj-x''])"
    by (simp add: claims_ok_def claims_x_def)
  show "PStr (scoped_project_id svc_proj_x) \<in> set [PStr ''projects/proj-x'']"
    by (simp add: svc_proj_x_def)
  show "map_of claims_ok ''iss'' = Some (PStr issuer_x)"
    by (simp add: claims_ok_def claims_x_def)
  show "prefix APP_CHECK_ISSUER issuer_x"
    by (simp add: APP_CHECK_ISSUER_def issuer_x_def)
  show "map_of claims_ok ''sub'' = Some (PStr ''1:1234:android:abcd'')"
    by (simp add: claims_ok_def claims_x_def)
  show "''1:1234:android:abcd'' \<noteq> []" by simp
qed

text \<open>
  Claim C9: a second call with the same token at the same time, in the state the first
  call left the key client in, returns the same claims, provided the key client still
  returns the same key for the token.
\<close>

theorem verify_token_repeatable:
  assumes first: "verify_token env svc now s token = (Inr c, s1)"
    and same_key: "fst (get_signing_key_from_jwt env s1 token)
                     = fst (get_signing_key_from_jwt env s token)"
  shows "fst (verify_token env svc now s1 token) = Inr c"
proof -
  from first obtain key h p where str: "isinstance_str token"
    and f: "get_signing_key_from_jwt env s token = (Inr key, s1)"
    and rest: "get_unverified_header env token = Inr h"
      "h ''typ'' = Some (PStr ''JWT'')" "h ''alg'' = Some (PStr ''RS256'')"
      "decode env now token key [''RS256''] (scoped_project_id svc) = Inr p"
      "check_claims (py_str env) svc p = Inr p"
      "c = p(''app_id'' \<mapsto> dict_get p ''sub'')"
    unfolding verify_token_Inr by blast
  obtain s2 where f2: "get_signing_key_from_jwt env s1 token = (Inr key, s2)"
    using same_key f by (cases "get_signing_key_from_jwt env s1 token") simp
  have "verify_token env svc now s1 token = (Inr c, s2)"
    unfolding verify_token_Inr using str f2 rest by blast
  then show ?thesis by simp
qed

text \<open>
  Witness for C9: the valid token, verified again after the first call was recorded.
\<close>

theorem verify_token_repeatable_witness:
  "fst (verify_token (double_env directory_x) svc_proj_x 1000 [PStr ''token.ok''] (PStr ''token.ok''))
     = Inr ((map_of claims_ok)(''app_id'' \<mapsto> PStr ''1:1234:android:abcd''))"
proof (rule verify_token_repeatable [where s = "[]"])
  show "verify_token (double_env directory_x) svc_proj_x 1000 [] (PStr ''token.ok'')
     = (Inr ((map_of claims_ok)(''app_id'' \<mapsto> PStr ''1:1234:android:abcd'')), [PStr ''token.ok''])"
    by (simp add: scenario_defs verifier_defs)
  show "fst (get_signing_key_from_jwt (double_env directory_x) [PStr ''token.ok''] (PStr ''token.ok''))
     = fst (get_signing_key_from_jwt (double_env directory_x) [] (PStr ''token.ok''))"
    by (simp add: scenario_defs)
qed

text \<open>
  Claim C10: the claims returned are the payload the decode step produced with \<^verbatim>\<open>app_id\<close>
  set to the \<^verbatim>\<open>sub\<close> claim; every other key is as in the payload, and an \<^verbatim>\<open>app_id\<close> of
  the payload is overwritten.
\<close>

theorem claims_frame:
  assumes "verify_token env svc now s token = (Inr c, s')"
  shows "\<exists>key p sub. get_signing_key_from_jwt env s token = (Inr key, s')
           \<and> decode env now token key [''RS256''] (scoped_project_id svc) = Inr p
           \<and> p ''sub'' = Some (PStr sub)
           \<and> c = p(''app_id'' \<mapsto> PStr sub)
           \<and> (\<forall>k. k \<noteq> ''app_id'' \<longrightarrow> c k = p k)"
proof -
  from assms obtain key h p where
      f: "get_signing_key_from_jwt env s token = (Inr key, s')"
    and d: "decode env now token key [''RS256''] (scoped_project_id svc) = Inr p"
    and ck: "check_claims (py_str env) svc p = Inr p"
    and c: "c = p(''app_id'' \<mapsto> dict_get p ''sub'')"
    unfolding verify_token_Inr by blast
  from ck obtain sub where sub: "p ''sub'' = Some (PStr sub)"
    unfolding check_claims_Inr by blast
  then have "dict_get p ''sub'' = PStr sub" by (simp add: dict_get_def)
  with c have "c = p(''app_id'' \<mapsto> PStr sub)" by simp
  with f d sub show ?thesis by auto
qed

text \<open>
  Witness for C10: a token whose signed payload already carries an \<^verbatim>\<open>app_id\<close> claim.
\<close>

theorem claims_frame_witness:
  "\<exists>key p sub. get_signing_key_from_jwt (double_env directory_x) [] (PStr ''token.app-id'')
             = (Inr key, [PStr ''token.app-id''])
     \<and> decode (double_env directory_x) 1000 (PStr ''token.app-id'') key [''RS256'']
           (scoped_project_id svc_proj_x) = Inr p
     \<and> p ''sub'' = Some (PStr sub)
     \<and> (map_of ((''app_id'', PStr ''forged'') # claims_ok))(''app_id'' \<mapsto> PStr ''1:1234:android:abcd'')
          = p(''app_id'' \<mapsto> PStr sub)
     \<and> (\<forall>k. k \<noteq> ''app_id'' \<longrightarrow>
           ((map_of ((''app_id'', PStr ''forged'') # claims_ok))
               (''app_id'' \<mapsto> PStr ''1:1234:android:abcd'')) k = p k)"
proof (rule claims_frame)
  show "verify_token (double_env directory_x) svc_proj_x 1000 [] (PStr ''token.app-id'')
     = (Inr ((map_of ((''app_id'', PStr ''forged'') # claims_ok))
               (''app_id'' \<mapsto> PStr ''1:1234:android:abcd'')), [PStr ''token.app-id''])"
    by (simp add: scenario_defs verifier_defs)
qed

end
